theory Spec2Isabelle
  imports Complex_Main "HOL-Library.Word"
begin

section \<open>Numbers\<close>

text \<open>
  The renderer computes with JavaScript numbers, which are IEEE doubles.  They are
  embedded as exact reals: every arithmetic operation of the source is the corresponding
  operation on \<open>real\<close>, without rounding or overflow.  So the embedding says how the code
  compares and combines the numbers it has computed; it does not say that those numbers
  are the exact values of the formulas.  A property that rests on an exact identity of
  arithmetic (a determinant that is exactly zero, a cross product of collinear vectors
  that is exactly zero, the strict monotonicity of the exponential) is not a property of
  the program in doubles, and none is stated below.

  Where the source holds a number that need not be finite (the initial closest distance
  \<open>Infinity\<close>, the depth of a miss, the result of \<open>parseFloat\<close>, the coordinates of a
  decoded triangle), the number is a \<open>number\<close>: a real or one of the three special values.
\<close>

datatype number = NaN | NegInfinity | Infinity | Finite real

text \<open>The comparison \<open>a < b\<close> of a finite number \<open>a\<close> with a number \<open>b\<close>.\<close>

fun lessNumber :: "real \<Rightarrow> number \<Rightarrow> bool" where
  "lessNumber a NaN = False"
| "lessNumber a NegInfinity = False"
| "lessNumber a Infinity = True"
| "lessNumber a (Finite b) = (a < b)"

text \<open>
  The comparisons \<open>a < b\<close> and \<open>a === b\<close> of two numbers: both are false when one of the
  numbers is NaN.
\<close>

fun numLess :: "number \<Rightarrow> number \<Rightarrow> bool" where
  "numLess NaN b = False"
| "numLess a NaN = False"
| "numLess Infinity b = False"
| "numLess a NegInfinity = False"
| "numLess NegInfinity b = True"
| "numLess a Infinity = True"
| "numLess (Finite a) (Finite b) = (a < b)"

definition numEq :: "number \<Rightarrow> number \<Rightarrow> bool" where
  "numEq a b = (a \<noteq> NaN \<and> a = b)"

text \<open>
  The product of a number and a finite number, and the sum of two numbers; a product of
  an infinite number and zero, and a sum of the two infinite numbers, are NaN.
\<close>

fun numTimes :: "number \<Rightarrow> real \<Rightarrow> number" where
  "numTimes NaN v = NaN"
| "numTimes (Finite a) v = Finite (a * v)"
| "numTimes Infinity v = (if 0 < v then Infinity else if v < 0 then NegInfinity else NaN)"
| "numTimes NegInfinity v = (if 0 < v then NegInfinity else if v < 0 then Infinity else NaN)"

fun numPlus :: "number \<Rightarrow> number \<Rightarrow> number" where
  "numPlus NaN b = NaN"
| "numPlus a NaN = NaN"
| "numPlus (Finite a) (Finite b) = Finite (a + b)"
| "numPlus (Finite a) b = b"
| "numPlus a (Finite b) = a"
| "numPlus Infinity Infinity = Infinity"
| "numPlus NegInfinity NegInfinity = NegInfinity"
| "numPlus Infinity NegInfinity = NaN"
| "numPlus NegInfinity Infinity = NaN"

section \<open>Vector math (orthographicCamera.ts)\<close>

text \<open>
  Interface \<open>Vector3\<close> with its fields \<open>x\<close>, \<open>y\<close>, \<open>z\<close> (written \<open>vx\<close>, \<open>vy\<close>, \<open>vz\<close>,
  so that \<open>x\<close>, \<open>y\<close> and \<open>z\<close> stay free for variables), and interface \<open>Ray\<close>.
\<close>

record Vector3 =
  vx :: real
  vy :: real
  vz :: real

record Ray =
  origin :: Vector3
  direction :: Vector3

definition add :: "Vector3 \<Rightarrow> Vector3 \<Rightarrow> Vector3" where
  "add a b = \<lparr>vx = vx a + vx b, vy = vy a + vy b, vz = vz a + vz b\<rparr>"

definition subtract :: "Vector3 \<Rightarrow> Vector3 \<Rightarrow> Vector3" where
  "subtract a b = \<lparr>vx = vx a - vx b, vy = vy a - vy b, vz = vz a - vz b\<rparr>"

definition multiply :: "Vector3 \<Rightarrow> real \<Rightarrow> Vector3" where
  "multiply v scalar = \<lparr>vx = vx v * scalar, vy = vy v * scalar, vz = vz v * scalar\<rparr>"

definition dot :: "Vector3 \<Rightarrow> Vector3 \<Rightarrow> real" where
  "dot a b = vx a * vx b + vy a * vy b + vz a * vz b"

definition cross :: "Vector3 \<Rightarrow> Vector3 \<Rightarrow> Vector3" where
  "cross a b = \<lparr>vx = vy a * vz b - vz a * vy b,
                vy = vz a * vx b - vx a * vz b,
                vz = vx a * vy b - vy a * vx b\<rparr>"

definition length3 :: "Vector3 \<Rightarrow> real" where
  "length3 v = sqrt (vx v * vx v + vy v * vy v + vz v * vz v)"

definition normalize3 :: "Vector3 \<Rightarrow> Vector3" where
  "normalize3 v =
     (let len = length3 v
      in if len = 0 then \<lparr>vx = 0, vy = 0, vz = 0\<rparr> else multiply v (1 / len))"

section \<open>Meshes (stl.ts)\<close>

text \<open>
  Interface \<open>Triangle\<close>: a normal and three vertices, each a triple of numbers.  The
  field \<open>normal\<close> is written \<open>tnormal\<close>, since a hit has a field of the same name.  The
  type of the coordinates is a parameter: the decoder produces \<open>number\<close> coordinates (a
  literal may parse to NaN), the renderer computes with real ones.
\<close>

record 'n Triangle =
  tnormal :: "'n \<times> 'n \<times> 'n"
  vertices :: "('n \<times> 'n \<times> 'n) \<times> ('n \<times> 'n \<times> 'n) \<times> ('n \<times> 'n \<times> 'n)"

type_synonym triple = "real \<times> real \<times> real"

text \<open>
  Interface \<open>STLModel\<close>.  A scene has a field \<open>triangles\<close> too, so the field of a model
  is written with its qualified name \<open>STLModel.triangles\<close>.
\<close>

record 'n STLModel =
  triangles :: "'n Triangle list"
  name :: "string option"

fun toVector3 :: "triple \<Rightarrow> Vector3" where
  "toVector3 (a, b, c) = \<lparr>vx = a, vy = b, vz = c\<rparr>"

section \<open>Intersection and lighting (raytracer.ts)\<close>

record Material =
  color :: Vector3
  ambient :: real
  diffuse :: real

record RayHit =
  point :: Vector3
  normal :: Vector3
  distance :: real
  material :: Material

record Scene =
  triangles :: "real Triangle list"
  lightPosition :: Vector3
  lightColor :: Vector3
  ambientLight :: Vector3
  backgroundColor :: Vector3
  fogColor :: Vector3
  fogDensity :: real

definition createScene :: "real Triangle list \<Rightarrow> Scene" where
  "createScene ts =
     \<lparr>triangles = ts,
      lightPosition = \<lparr>vx = 10, vy = 10, vz = 10\<rparr>,
      lightColor = \<lparr>vx = 1, vy = 1, vz = 1\<rparr>,
      ambientLight = \<lparr>vx = 3/10, vy = 3/10, vz = 3/10\<rparr>,
      backgroundColor = \<lparr>vx = 1, vy = 1, vz = 8/10\<rparr>,
      fogColor = \<lparr>vx = 9/10, vy = 9/10, vz = 7/10\<rparr>,
      fogDensity = 5/1000\<rparr>"

definition multiplyVectors :: "Vector3 \<Rightarrow> Vector3 \<Rightarrow> Vector3" where
  "multiplyVectors a b = \<lparr>vx = vx a * vx b, vy = vy a * vy b, vz = vz a * vz b\<rparr>"

definition clampColor :: "Vector3 \<Rightarrow> Vector3" where
  "clampColor c = \<lparr>vx = min 1 (max 0 (vx c)), vy = min 1 (max 0 (vy c)), vz = min 1 (max 0 (vz c))\<rparr>"

subsection \<open>intersectRayTriangle\<close>

text \<open>
  The function has two parts: the bounding-box check that returns \<open>null\<close> early
  (\<open>bboxReject\<close>), and the M\"oller-Trumbore test (\<open>mollerTrumbore\<close>).
\<close>

definition bboxReject :: "Ray \<Rightarrow> real Triangle \<Rightarrow> bool" where
  "bboxReject ray triangle =
     (case vertices triangle of (p0, p1, p2) \<Rightarrow>
      let v0 = toVector3 p0; v1 = toVector3 p1; v2 = toVector3 p2;
          minX = min (vx v0) (min (vx v1) (vx v2));
          maxX = max (vx v0) (max (vx v1) (vx v2));
          minY = min (vy v0) (min (vy v1) (vy v2));
          maxY = max (vy v0) (max (vy v1) (vy v2));
          minZ = min (vz v0) (min (vz v1) (vz v2));
          maxZ = max (vz v0) (max (vz v1) (vz v2));
          ro = origin ray; rd = direction ray
      in (vx ro < minX - 1 \<or> vx ro > maxX + 1 \<or>
          vy ro < minY - 1 \<or> vy ro > maxY + 1 \<or>
          vz ro < minZ - 1 \<or> vz ro > maxZ + 1) \<and>
         ((vx rd > 0 \<and> vx ro > maxX) \<or>
          (vx rd < 0 \<and> vx ro < minX) \<or>
          (vy rd > 0 \<and> vy ro > maxY) \<or>
          (vy rd < 0 \<and> vy ro < minY) \<or>
          (vz rd > 0 \<and> vz ro > maxZ) \<or>
          (vz rd < 0 \<and> vz ro < minZ)))"

definition greenMaterial :: Material where
  "greenMaterial = \<lparr>color = \<lparr>vx = 3/10, vy = 8/10, vz = 3/10\<rparr>, ambient = 3/10, diffuse = 7/10\<rparr>"

definition mollerTrumbore :: "Ray \<Rightarrow> real Triangle \<Rightarrow> RayHit option" where
  "mollerTrumbore ray triangle =
     (case vertices triangle of (p0, p1, p2) \<Rightarrow>
      let v0 = toVector3 p0; v1 = toVector3 p1; v2 = toVector3 p2;
          edge1 = subtract v1 v0;
          edge2 = subtract v2 v0;
          h = cross (direction ray) edge2;
          a = dot edge1 h
      in if a > - (1/100000) \<and> a < 1/100000 then None
         else
           let f = 1 / a;
               s = subtract (origin ray) v0;
               u = f * dot s h
           in if u < 0 \<or> u > 1 then None
              else
                let q = cross s edge1;
                    v = f * dot (direction ray) q
                in if v < 0 \<or> u + v > 1 then None
                   else
                     let t = f * dot edge2 q
                     in if t > 1/100000
                        then Some \<lparr>point = add (origin ray) (multiply (direction ray) t),
                                   normal = normalize3 (toVector3 (tnormal triangle)),
                                   distance = t,
                                   material = greenMaterial\<rparr>
                        else None)"

definition intersectRayTriangle :: "Ray \<Rightarrow> real Triangle \<Rightarrow> RayHit option" where
  "intersectRayTriangle ray triangle =
     (if bboxReject ray triangle then None else mollerTrumbore ray triangle)"

subsection \<open>castRay\<close>

text \<open>
  The loop of \<open>castRay\<close> over the remaining triangles, with its two variables
  \<open>closestHit\<close> and \<open>closestDistance\<close>; \<open>break\<close> returns the current closest hit.
\<close>

fun castRayLoop :: "Ray \<Rightarrow> real Triangle list \<Rightarrow> RayHit option \<Rightarrow> number \<Rightarrow> RayHit option" where
  "castRayLoop ray [] closestHit closestDistance = closestHit"
| "castRayLoop ray (triangle # rest) closestHit closestDistance =
     (case intersectRayTriangle ray triangle of
        None \<Rightarrow> castRayLoop ray rest closestHit closestDistance
      | Some hit \<Rightarrow>
          if lessNumber (distance hit) closestDistance
          then (if distance hit < 1/1000 then Some hit
                else castRayLoop ray rest (Some hit) (Finite (distance hit)))
          else castRayLoop ray rest closestHit closestDistance)"

definition castRay :: "Ray \<Rightarrow> Scene \<Rightarrow> RayHit option" where
  "castRay ray scene = castRayLoop ray (triangles scene) None Infinity"


subsection \<open>calculateLighting\<close>

text \<open>
  The stages of \<open>calculateLighting\<close>: the ambient term, the diffuse term, their sum
  (\<open>combinedLight\<close>), the fog factor, the fogged colour before clamping, and the clamp.
\<close>

definition ambientTerm :: "RayHit \<Rightarrow> Scene \<Rightarrow> Vector3" where
  "ambientTerm hit scene = multiplyVectors (color (material hit)) (ambientLight scene)"

definition diffuseTerm :: "RayHit \<Rightarrow> Scene \<Rightarrow> Vector3" where
  "diffuseTerm hit scene =
     (let lightDirection = normalize3 (subtract (lightPosition scene) (point hit));
          diffuseIntensity = max 0 (dot (normal hit) lightDirection) * diffuse (material hit)
      in multiply (multiplyVectors (color (material hit)) (lightColor scene)) diffuseIntensity)"

definition combinedLight :: "RayHit \<Rightarrow> Scene \<Rightarrow> Vector3" where
  "combinedLight hit scene = add (ambientTerm hit scene) (diffuseTerm hit scene)"

definition fogFactor :: "RayHit \<Rightarrow> Scene \<Rightarrow> real" where
  "fogFactor hit scene = exp (- fogDensity scene * distance hit)"

definition foggedColor :: "RayHit \<Rightarrow> Scene \<Rightarrow> Vector3" where
  "foggedColor hit scene =
     add (multiply (combinedLight hit scene) (fogFactor hit scene))
         (multiply (fogColor scene) (1 - fogFactor hit scene))"

definition calculateLighting :: "RayHit \<Rightarrow> Scene \<Rightarrow> Vector3 \<Rightarrow> Vector3" where
  "calculateLighting hit scene rayDirection = clampColor (foggedColor hit scene)"

subsection \<open>Scanned hits\<close>




section \<open>Orthographic camera (orthographicCamera.ts)\<close>

text \<open>
  Interface \<open>OrthographicCamera\<close>.  The extents \<open>left\<close>, \<open>right\<close>, \<open>bottom\<close>, \<open>top\<close>,
  \<open>near\<close>, \<open>far\<close> carry the prefix \<open>c\<close>.
\<close>

record OrthographicCamera =
  position :: Vector3
  target :: Vector3
  up :: Vector3
  cleft :: real
  cright :: real
  cbottom :: real
  ctop :: real
  cnear :: real
  cfar :: real

definition createOrthographicCamera ::
  "Vector3 \<Rightarrow> Vector3 \<Rightarrow> Vector3 \<Rightarrow> real \<Rightarrow> real \<Rightarrow> real \<Rightarrow> OrthographicCamera" where
  "createOrthographicCamera pos tgt upv width height scale =
     (let halfWidth = width / 2 * scale;
          halfHeight = height / 2 * scale
      in \<lparr>position = pos, target = tgt, up = upv,
          cleft = - halfWidth, cright = halfWidth,
          cbottom = - halfHeight, ctop = halfHeight,
          cnear = 1/10, cfar = 1000\<rparr>)"

text \<open>
  The basis vectors that \<open>getRayForPixel\<close> derives from the camera: \<open>forward\<close>,
  \<open>right\<close> and \<open>up\<close> of the source.
\<close>

definition cameraForward :: "OrthographicCamera \<Rightarrow> Vector3" where
  "cameraForward camera = normalize3 (subtract (target camera) (position camera))"

definition cameraRight :: "OrthographicCamera \<Rightarrow> Vector3" where
  "cameraRight camera = normalize3 (cross (cameraForward camera) (up camera))"

definition cameraUp :: "OrthographicCamera \<Rightarrow> Vector3" where
  "cameraUp camera = cross (cameraRight camera) (cameraForward camera)"

text \<open>
  No operation of \<open>getRayForPixel\<close> throws, so the function returns a ray directly.
  (A zero \<open>imageWidth\<close> or \<open>imageHeight\<close> makes \<open>u\<close> or \<open>v\<close> infinite or NaN in the source
  and \<open>0\<close> here; nothing below depends on the origin of the ray in that case.)
\<close>

definition getRayForPixel :: "OrthographicCamera \<Rightarrow> real \<Rightarrow> real \<Rightarrow> real \<Rightarrow> real \<Rightarrow> Ray" where
  "getRayForPixel camera pixelX pixelY imageWidth imageHeight =
     (let u = pixelX / imageWidth;
          v = pixelY / imageHeight;
          worldX = cleft camera + u * (cright camera - cleft camera);
          worldY = cbottom camera + v * (ctop camera - cbottom camera);
          forward = cameraForward camera;
          right = cameraRight camera;
          upv = cameraUp camera;
          rayOrigin = \<lparr>vx = vx (position camera) + worldX * vx right + worldY * vx upv,
                       vy = vy (position camera) + worldX * vy right + worldY * vy upv,
                       vz = vz (position camera) + worldX * vz right + worldY * vz upv\<rparr>
      in \<lparr>origin = rayOrigin, direction = forward\<rparr>)"

section \<open>Outline detection (outlineView.ts)\<close>

record OutlineResult =
  isOutline :: bool
  depth :: number

definition neighbors :: "real \<Rightarrow> real \<Rightarrow> (real \<times> real) list" where
  "neighbors pixelX pixelY =
     [(pixelX + 1, pixelY), (pixelX - 1, pixelY), (pixelX, pixelY + 1), (pixelX, pixelY - 1)]"

definition outOfBounds :: "real \<times> real \<Rightarrow> real \<Rightarrow> real \<Rightarrow> bool" where
  "outOfBounds neighbor imageWidth imageHeight =
     (fst neighbor < 0 \<or> fst neighbor \<ge> imageWidth \<or> snd neighbor < 0 \<or> snd neighbor \<ge> imageHeight)"

text \<open>The loop of \<open>detectOutline\<close> over the remaining neighbours, \<open>hit\<close> being the centre hit.\<close>

fun neighborLoop ::
  "Scene \<Rightarrow> RayHit \<Rightarrow> real \<Rightarrow> real \<Rightarrow> (real \<Rightarrow> real \<Rightarrow> Ray) \<Rightarrow> (real \<times> real) list \<Rightarrow> OutlineResult" where
  "neighborLoop scene hit imageWidth imageHeight rayFor [] =
     \<lparr>isOutline = False, depth = Finite (distance hit)\<rparr>"
| "neighborLoop scene hit imageWidth imageHeight rayFor (neighbor # rest) =
     (if outOfBounds neighbor imageWidth imageHeight
      then neighborLoop scene hit imageWidth imageHeight rayFor rest
      else
        (case castRay (rayFor (fst neighbor) (snd neighbor)) scene of
           None \<Rightarrow> \<lparr>isOutline = True, depth = Finite (distance hit)\<rparr>
         | Some neighborHit \<Rightarrow>
             if \<bar>distance hit - distance neighborHit\<bar> > 1/10
             then \<lparr>isOutline = True, depth = Finite (distance hit)\<rparr>
             else if dot (normal hit) (normal neighborHit) < 8/10
             then \<lparr>isOutline = True, depth = Finite (distance hit)\<rparr>
             else neighborLoop scene hit imageWidth imageHeight rayFor rest))"

definition detectOutline ::
  "Ray \<Rightarrow> Scene \<Rightarrow> real \<Rightarrow> real \<Rightarrow> real \<Rightarrow> real \<Rightarrow> (real \<Rightarrow> real \<Rightarrow> Ray) \<Rightarrow> OutlineResult" where
  "detectOutline ray scene pixelX pixelY imageWidth imageHeight rayFor =
     (case castRay ray scene of
        None \<Rightarrow> \<lparr>isOutline = False, depth = Infinity\<rparr>
      | Some hit \<Rightarrow>
          neighborLoop scene hit imageWidth imageHeight rayFor (neighbors pixelX pixelY))"

section \<open>Silhouette detection (outlineView.ts)\<close>

text \<open>
  \<open>detectSilhouette\<close> receives the triangles of a decoded mesh, whose coordinates are
  numbers that may be NaN.

  \<open>createEdgeKey\<close> orders the two endpoints of an edge lexicographically and prints
  their six coordinates into a string, \<open>first\<close> before \<open>second\<close>.  The coordinates are
  printed as they are, with no rounding or snapping; the same numbers print alike (NaN
  as \<open>NaN\<close>) and the string determines the six numbers, so the key is embedded as the
  ordered pair \<open>(first, second)\<close> itself.
\<close>

type_synonym vertex = "number \<times> number \<times> number"

type_synonym edgeKey = "vertex \<times> vertex"

fun createEdgeKey :: "vertex \<Rightarrow> vertex \<Rightarrow> edgeKey" where
  "createEdgeKey (a0, a1, a2) (b0, b1, b2) =
     (if numLess a0 b0 \<or> (numEq a0 b0 \<and> numLess a1 b1)
         \<or> (numEq a0 b0 \<and> numEq a1 b1 \<and> numLess a2 b2)
      then ((a0, a1, a2), (b0, b1, b2)) else ((b0, b1, b2), (a0, a1, a2)))"

text \<open>\<open>vertices[i]\<close> for the indices 0, 1, 2 of the loop.\<close>

fun vertexAt :: "vertex \<times> vertex \<times> vertex \<Rightarrow> nat \<Rightarrow> vertex" where
  "vertexAt (p0, p1, p2) i = (if i = 0 then p0 else if i = 1 then p1 else p2)"

text \<open>
  The map \<open>edges\<close> from keys to lists of triangle indices, as an association list in
  insertion order.  \<open>addEdge\<close> is the body of the inner loop: it enters the key with an
  empty list when the map does not have it, then pushes the triangle index.
\<close>

type_synonym edgeMap = "(edgeKey \<times> nat list) list"

definition addEdge :: "edgeMap \<Rightarrow> edgeKey \<Rightarrow> nat \<Rightarrow> edgeMap" where
  "addEdge edges edgeKey triIndex =
     (let edges1 = (if map_of edges edgeKey = None then edges @ [(edgeKey, [])] else edges)
      in map (\<lambda>(k, l). if k = edgeKey then (k, l @ [triIndex]) else (k, l)) edges1)"

definition addTriangleEdges :: "edgeMap \<Rightarrow> number Triangle \<Rightarrow> nat \<Rightarrow> edgeMap" where
  "addTriangleEdges edges triangle triIndex =
     fold (\<lambda>i es. addEdge es (createEdgeKey (vertexAt (vertices triangle) i)
                                              (vertexAt (vertices triangle) ((i + 1) mod 3))) triIndex)
          [0, 1, 2] edges"

fun buildEdges :: "number Triangle list \<Rightarrow> nat \<Rightarrow> edgeMap \<Rightarrow> edgeMap" where
  "buildEdges [] triIndex edges = edges"
| "buildEdges (triangle # rest) triIndex edges =
     buildEdges rest (triIndex + 1) (addTriangleEdges edges triangle triIndex)"

text \<open>The facing test \<open>dot(normal, viewDirection) < 0\<close> of a triangle.\<close>

definition facing :: "number Triangle \<Rightarrow> Vector3 \<Rightarrow> bool" where
  "facing triangle viewDirection =
     (case tnormal triangle of (n0, n1, n2) \<Rightarrow>
        numLess (numPlus (numPlus (numTimes n0 (vx viewDirection)) (numTimes n1 (vy viewDirection)))
                         (numTimes n2 (vz viewDirection)))
                (Finite 0))"

text \<open>The second pass, over the entries of the map, with the flags computed so far.\<close>

fun markSilhouette :: "number Triangle list \<Rightarrow> Vector3 \<Rightarrow> edgeMap \<Rightarrow> bool list \<Rightarrow> bool list" where
  "markSilhouette ts viewDirection [] isSilhouette = isSilhouette"
| "markSilhouette ts viewDirection ((edgeKey, triangleIndices) # rest) isSilhouette =
     markSilhouette ts viewDirection rest
       (case triangleIndices of
          [tri1Index, tri2Index] \<Rightarrow>
            if facing (ts ! tri1Index) viewDirection \<noteq> facing (ts ! tri2Index) viewDirection
            then isSilhouette[tri1Index := True, tri2Index := True]
            else isSilhouette
        | _ \<Rightarrow> isSilhouette)"

definition detectSilhouette :: "number Triangle list \<Rightarrow> Vector3 \<Rightarrow> bool list" where
  "detectSilhouette ts viewDirection =
     markSilhouette ts viewDirection (buildEdges ts 0 []) (replicate (length ts) False)"

text \<open>
  The vocabulary of the specification.  An edge is the unordered pair of its endpoint
  coordinate triples; \<open>edgesOf\<close> lists the three edges of a triangle, and \<open>sharers\<close>
  lists the triangles that have a given edge, each triangle once.
\<close>

definition edgesOf :: "number Triangle \<Rightarrow> vertex set list" where
  "edgesOf triangle =
     (case vertices triangle of (p0, p1, p2) \<Rightarrow> [{p0, p1}, {p1, p2}, {p2, p0}])"

definition sharers :: "number Triangle list \<Rightarrow> vertex set \<Rightarrow> nat list" where
  "sharers ts e = filter (\<lambda>j. e \<in> set (edgesOf (ts ! j))) [0..<length ts]"

section \<open>Mesh decoder, text format (stl.ts)\<close>

text \<open>
  A string is a list of characters; the text format is ASCII.  The whitespace that
  \<open>trim\<close> and the pattern \<open>\s\<close> recognise is, within ASCII: tab, line feed, vertical tab,
  form feed, carriage return and space.
\<close>

definition isWhitespace :: "char \<Rightarrow> bool" where
  "isWhitespace c = (c \<in> {CHR 0x09, CHR 0x0A, CHR 0x0B, CHR 0x0C, CHR 0x0D, CHR 0x20})"

definition trim :: "string \<Rightarrow> string" where
  "trim s = rev (dropWhile isWhitespace (rev (dropWhile isWhitespace s)))"

text \<open>\<open>s.split(c)\<close> for a one-character separator: the empty string gives one empty piece.\<close>

fun splitChar :: "char \<Rightarrow> string \<Rightarrow> string list" where
  "splitChar c [] = [] # []"
| "splitChar c (x # xs) =
     (if x = c then [] # splitChar c xs
      else (case splitChar c xs of [] \<Rightarrow> [x] # [] | l # ls \<Rightarrow> (x # l) # ls))"

text \<open>
  \<open>s.split(/\s+/)\<close>: the pieces between the maximal runs of whitespace.  A run at the
  start or at the end of the string leaves an empty piece there.
\<close>

function splitWhitespace :: "string \<Rightarrow> string list" where
  "splitWhitespace [] = [] # []"
| "splitWhitespace (x # xs) =
     (if isWhitespace x then [] # splitWhitespace (dropWhile isWhitespace xs)
      else (case splitWhitespace xs of [] \<Rightarrow> [x] # [] | l # ls \<Rightarrow> (x # l) # ls))"
  by pat_completeness auto
termination
  by (relation "measure length") (auto simp: length_dropWhile_le le_imp_less_Suc)

definition startsWith :: "string \<Rightarrow> string \<Rightarrow> bool" where
  "startsWith s p = (take (length p) s = p)"

text \<open>An array element that may be \<open>undefined\<close>: \<open>xs[i]\<close>.\<close>

definition element :: "'a list \<Rightarrow> nat \<Rightarrow> 'a option" where
  "element xs i = (if i < length xs then Some (xs ! i) else None)"

subsection \<open>parseFloat\<close>

text \<open>
  The language's \<open>parseFloat\<close>: it skips leading whitespace and reads the longest prefix
  that is a decimal literal (an optional sign, then \<open>Infinity\<close> or digits with an
  optional fraction and an optional exponent); what follows the prefix is ignored.
  Without such a prefix, and for \<open>undefined\<close>, the result is NaN.  The value of the
  literal is taken exactly.
\<close>

definition isDigit :: "char \<Rightarrow> bool" where
  "isDigit c = (48 \<le> (of_char c :: nat) \<and> (of_char c :: nat) \<le> 57)"

definition digitsValue :: "string \<Rightarrow> nat" where
  "digitsValue ds = foldl (\<lambda>n c. 10 * n + (of_char c - 48)) 0 ds"

text \<open>The exponent part at the start of a string, if there is one; otherwise 0.\<close>

definition exponentOf :: "string \<Rightarrow> int" where
  "exponentOf s =
     (case s of
        [] \<Rightarrow> 0
      | e # r \<Rightarrow>
          if e = CHR ''e'' \<or> e = CHR ''E'' then
            (case r of
               [] \<Rightarrow> 0
             | sg # r' \<Rightarrow>
                 if sg = CHR ''-'' then
                   (if takeWhile isDigit r' = [] then 0 else - int (digitsValue (takeWhile isDigit r')))
                 else if sg = CHR ''+'' then
                   (if takeWhile isDigit r' = [] then 0 else int (digitsValue (takeWhile isDigit r')))
                 else if takeWhile isDigit r = [] then 0 else int (digitsValue (takeWhile isDigit r)))
          else 0)"

definition scale10 :: "real \<Rightarrow> int \<Rightarrow> real" where
  "scale10 m e = (if 0 \<le> e then m * 10 ^ nat e else m / 10 ^ nat (- e))"

definition parseUnsigned :: "string \<Rightarrow> number" where
  "parseUnsigned s =
     (if startsWith s ''Infinity'' then Infinity
      else
        let ip = takeWhile isDigit s;
            r1 = dropWhile isDigit s;
            fp = (case r1 of [] \<Rightarrow> [] | d # r \<Rightarrow> if d = CHR ''.'' then takeWhile isDigit r else []);
            r2 = (case r1 of [] \<Rightarrow> [] | d # r \<Rightarrow> if d = CHR ''.'' then dropWhile isDigit r else r1)
        in if ip = [] \<and> fp = [] then NaN
           else Finite (scale10 (real (digitsValue ip) + real (digitsValue fp) / 10 ^ length fp)
                                (exponentOf r2)))"

fun negateNumber :: "number \<Rightarrow> number" where
  "negateNumber NaN = NaN"
| "negateNumber Infinity = NegInfinity"
| "negateNumber NegInfinity = Infinity"
| "negateNumber (Finite r) = Finite (- r)"

definition parseFloat :: "string option \<Rightarrow> number" where
  "parseFloat arg =
     (case arg of
        None \<Rightarrow> NaN
      | Some s \<Rightarrow>
          (case dropWhile isWhitespace s of
             [] \<Rightarrow> NaN
           | c # r \<Rightarrow>
               if c = CHR ''-'' then negateNumber (parseUnsigned r)
               else if c = CHR ''+'' then parseUnsigned r
               else parseUnsigned (c # r)))"

subsection \<open>parseASCIISTL\<close>

text \<open>
  The only operation of \<open>parseASCIISTL\<close> that can throw is \<open>vertexLine.split\<close>, when
  \<open>lines[i]\<close> is \<open>undefined\<close> because the file ends inside a facet.
\<close>

datatype error = TypeError

text \<open>Three numbers from the first three pieces of a line.\<close>

definition parseTriple :: "string list \<Rightarrow> number \<times> number \<times> number" where
  "parseTriple parts =
     (parseFloat (element parts 0), parseFloat (element parts 1), parseFloat (element parts 2))"

text \<open>One round of the loop that reads the three vertices.\<close>

definition readVertex :: "string list \<Rightarrow> nat \<Rightarrow> error + (number \<times> number \<times> number)" where
  "readVertex lines i =
     (case element lines i of
        None \<Rightarrow> Inl TypeError
      | Some vertexLine \<Rightarrow> Inr (parseTriple (drop 1 (splitWhitespace vertexLine))))"

text \<open>The first loop, which skips to the first line that starts a facet.\<close>

function skipHeader :: "string list \<Rightarrow> nat \<Rightarrow> nat" where
  "skipHeader lines i =
     (if i < length lines \<and> \<not> startsWith (lines ! i) ''facet normal''
      then skipHeader lines (i + 1) else i)"
  by pat_completeness auto
termination
  by (relation "measure (\<lambda>(lines, i). length lines - i)") auto

text \<open>The main loop, from line \<open>i\<close> on, with the triangles read so far.\<close>

function parseFacets ::
  "string list \<Rightarrow> nat \<Rightarrow> number Triangle list \<Rightarrow> error + number Triangle list" where
  "parseFacets lines i ts =
     (if i < length lines then
        (if startsWith (lines ! i) ''facet normal'' then
           (case readVertex lines (i + 2) of
              Inl e \<Rightarrow> Inl e
            | Inr v0 \<Rightarrow>
                (case readVertex lines (i + 3) of
                   Inl e \<Rightarrow> Inl e
                 | Inr v1 \<Rightarrow>
                     (case readVertex lines (i + 4) of
                        Inl e \<Rightarrow> Inl e
                      | Inr v2 \<Rightarrow>
                          parseFacets lines (i + 7)
                            (ts @ [\<lparr>tnormal = parseTriple (drop 2 (splitWhitespace (lines ! i))),
                                    vertices = (v0, v1, v2)\<rparr>]))))
         else parseFacets lines (i + 1) ts)
      else Inr ts)"
  by pat_completeness auto
termination
  by (relation "measure (\<lambda>(lines, i, ts). length lines - i)") auto

definition linesOf :: "string \<Rightarrow> string list" where
  "linesOf content = map trim (splitChar CHR 0x0A content)"

definition parseASCIISTL :: "string \<Rightarrow> error + number STLModel" where
  "parseASCIISTL content =
     (let lines = linesOf content;
          i = skipHeader lines 0
      in case parseFacets lines i [] of
           Inl e \<Rightarrow> Inl e
         | Inr ts \<Rightarrow> Inr \<lparr>STLModel.triangles = ts, name = None\<rparr>)"

section \<open>Multiview compositor (multiview.ts)\<close>

text \<open>
  The canvas library is not part of the repository.  A canvas is embedded as its width,
  its height and its pixels; a pixel has four channels of eight bits, red, green, blue
  and alpha.  \<open>createCanvas\<close> gives a transparent black canvas, \<open>putImageData\<close> copies the
  bytes of an image onto the canvas at an offset, and \<open>fillRect\<close> (with the fill style
  \<open>#000000\<close>, the only one the code sets) paints a rectangle opaque black.  Writing the
  encoded canvas to \<open>outputPath\<close> is the last step of the source; the embedding returns
  the path together with the canvas that is written.
\<close>

type_synonym rgba = "8 word \<times> 8 word \<times> 8 word \<times> 8 word"

record Canvas =
  canvasWidth :: nat
  canvasHeight :: nat
  pixels :: "nat \<Rightarrow> nat \<Rightarrow> rgba"

record ImageData =
  dataWidth :: nat
  dataHeight :: nat
  bytes :: "8 word list"

definition createCanvas :: "nat \<Rightarrow> nat \<Rightarrow> Canvas" where
  "createCanvas w h = \<lparr>canvasWidth = w, canvasHeight = h, pixels = (\<lambda>px py. (0, 0, 0, 0))\<rparr>"

definition createImageData :: "nat \<Rightarrow> nat \<Rightarrow> ImageData" where
  "createImageData w h = \<lparr>dataWidth = w, dataHeight = h, bytes = replicate (w * h * 4) 0\<rparr>"

definition putImageData :: "Canvas \<Rightarrow> ImageData \<Rightarrow> nat \<Rightarrow> nat \<Rightarrow> Canvas" where
  "putImageData canvas img offsetX offsetY =
     canvas\<lparr>pixels := (\<lambda>px py.
        if offsetX \<le> px \<and> px < offsetX + dataWidth img \<and> px < canvasWidth canvas \<and>
           offsetY \<le> py \<and> py < offsetY + dataHeight img \<and> py < canvasHeight canvas
        then (let k = ((py - offsetY) * dataWidth img + (px - offsetX)) * 4
              in (bytes img ! k, bytes img ! (k + 1), bytes img ! (k + 2), bytes img ! (k + 3)))
        else pixels canvas px py)\<rparr>"

definition fillRect :: "Canvas \<Rightarrow> int \<Rightarrow> int \<Rightarrow> int \<Rightarrow> int \<Rightarrow> Canvas" where
  "fillRect canvas rx ry rw rh =
     canvas\<lparr>pixels := (\<lambda>px py.
        if rx \<le> int px \<and> int px < rx + rw \<and> px < canvasWidth canvas \<and>
           ry \<le> int py \<and> int py < ry + rh \<and> py < canvasHeight canvas
        then (0, 0, 0, 255)
        else pixels canvas px py)\<rparr>"

text \<open>
  A store \<open>data[k] = Math.round(v)\<close> into the clamped byte array of an image: the value
  rounded to the nearest integer, halves up, and clamped to the range of a byte.
\<close>

definition toByte :: "real \<Rightarrow> 8 word" where
  "toByte v = of_nat (nat (max 0 (min 255 \<lfloor>v + 1/2\<rfloor>)))"

definition writePixel :: "8 word list \<Rightarrow> nat \<Rightarrow> Vector3 \<Rightarrow> 8 word list" where
  "writePixel d pixelIndex c =
     d[pixelIndex := toByte (vx c * 255),
       pixelIndex + 1 := toByte (vy c * 255),
       pixelIndex + 2 := toByte (vz c * 255),
       pixelIndex + 3 := 255]"

definition step :: nat where
  "step = 2"

text \<open>The two inner loops, which fill the block of the sampled pixel \<open>(px, py)\<close>.\<close>

definition fillBlock :: "8 word list \<Rightarrow> Vector3 \<Rightarrow> nat \<Rightarrow> nat \<Rightarrow> nat \<Rightarrow> nat \<Rightarrow> 8 word list" where
  "fillBlock d c px py w h =
     fold (\<lambda>dy d1.
             fold (\<lambda>dx d2. writePixel d2 (((py + dy) * w + (px + dx)) * 4) c)
                  (takeWhile (\<lambda>dx. px + dx < w) [0..<step]) d1)
          (takeWhile (\<lambda>dy. py + dy < h) [0..<step]) d"

definition getBackgroundColor :: "nat \<Rightarrow> nat \<Rightarrow> nat \<Rightarrow> nat \<Rightarrow> Vector3 \<Rightarrow> Vector3" where
  "getBackgroundColor px py w h baseColor =
     (let gridSize = 40; lineWidth = 1;
          onGridX = (px mod gridSize < lineWidth);
          onGridY = (py mod gridSize < lineWidth)
      in if onGridX \<or> onGridY
         then \<lparr>vx = vx baseColor * (9/10), vy = vy baseColor * (9/10), vz = vz baseColor * (9/10)\<rparr>
         else baseColor)"

text \<open>The colour of the sample at \<open>(px, py)\<close>, in the version of \<open>src/views/multiview.ts\<close>.\<close>

definition sampleColor :: "Scene \<Rightarrow> OrthographicCamera \<Rightarrow> nat \<Rightarrow> nat \<Rightarrow> nat \<Rightarrow> nat \<Rightarrow> Vector3" where
  "sampleColor scene camera px py w h =
     (let ray = getRayForPixel camera (real px) (real py) (real w) (real h)
      in case castRay ray scene of
           Some hit \<Rightarrow> calculateLighting hit scene (direction ray)
         | None \<Rightarrow> getBackgroundColor px py w h (backgroundColor scene))"

function renderColumns ::
  "Scene \<Rightarrow> OrthographicCamera \<Rightarrow> nat \<Rightarrow> nat \<Rightarrow> nat \<Rightarrow> nat \<Rightarrow> 8 word list \<Rightarrow> 8 word list" where
  "renderColumns scene camera w h py px d =
     (if px < w
      then renderColumns scene camera w h py (px + step)
             (fillBlock d (sampleColor scene camera px py w h) px py w h)
      else d)"
  by pat_completeness auto
termination
  by (relation "measure (\<lambda>(scene, camera, w, h, py, px, d). w - px)") (auto simp: step_def)

function renderRows ::
  "Scene \<Rightarrow> OrthographicCamera \<Rightarrow> nat \<Rightarrow> nat \<Rightarrow> nat \<Rightarrow> 8 word list \<Rightarrow> 8 word list" where
  "renderRows scene camera w h py d =
     (if py < h
      then renderRows scene camera w h (py + step) (renderColumns scene camera w h py 0 d)
      else d)"
  by pat_completeness auto
termination
  by (relation "measure (\<lambda>(scene, camera, w, h, py, d). h - py)") (auto simp: step_def)

definition renderView ::
  "Canvas \<Rightarrow> Scene \<Rightarrow> OrthographicCamera \<Rightarrow> nat \<Rightarrow> nat \<Rightarrow> nat \<Rightarrow> nat \<Rightarrow> Canvas" where
  "renderView ctx scene camera w h offsetX offsetY =
     (let imageData = createImageData w h;
          d = renderRows scene camera w h 0 (bytes imageData)
      in putImageData ctx (imageData\<lparr>bytes := d\<rparr>) offsetX offsetY)"

text \<open>
  \<open>calculateBounds\<close>.  The running minimum and maximum start at \<open>Infinity\<close> and
  \<open>-Infinity\<close>, so after the first vertex they are the coordinates of that vertex.
\<close>

record Bounds =
  boundsMin :: Vector3
  boundsMax :: Vector3

definition extendBounds :: "triple \<Rightarrow> Bounds \<Rightarrow> Bounds" where
  "extendBounds p b =
     (case p of (a0, a1, a2) \<Rightarrow>
        \<lparr>boundsMin = \<lparr>vx = min (vx (boundsMin b)) a0, vy = min (vy (boundsMin b)) a1,
                       vz = min (vz (boundsMin b)) a2\<rparr>,
         boundsMax = \<lparr>vx = max (vx (boundsMax b)) a0, vy = max (vy (boundsMax b)) a1,
                       vz = max (vz (boundsMax b)) a2\<rparr>\<rparr>)"

definition vertexList :: "real Triangle \<Rightarrow> triple list" where
  "vertexList t = (case vertices t of (p0, p1, p2) \<Rightarrow> [p0, p1, p2])"

definition calculateBounds :: "real Triangle list \<Rightarrow> Bounds" where
  "calculateBounds ts =
     (case concat (map vertexList ts) of
        [] \<Rightarrow> \<lparr>boundsMin = \<lparr>vx = - 1, vy = - 1, vz = - 1\<rparr>, boundsMax = \<lparr>vx = 1, vy = 1, vz = 1\<rparr>\<rparr>
      | p # ps \<Rightarrow> fold extendBounds ps \<lparr>boundsMin = toVector3 p, boundsMax = toVector3 p\<rparr>)"

text \<open>One entry of the array \<open>views\<close>.\<close>

record View =
  viewName :: string
  viewPosition :: Vector3
  viewTarget :: Vector3
  viewUp :: Vector3
  canvasX :: nat
  canvasY :: nat

definition views :: "nat \<Rightarrow> nat \<Rightarrow> Vector3 \<Rightarrow> real \<Rightarrow> View list" where
  "views viewWidth viewHeight center maxDimension =
     [\<lparr>viewName = ''top'',
       viewPosition = \<lparr>vx = vx center, vy = vy center, vz = vz center + maxDimension * 2\<rparr>,
       viewTarget = center, viewUp = \<lparr>vx = 0, vy = 1, vz = 0\<rparr>,
       canvasX = 0, canvasY = 0\<rparr>,
      \<lparr>viewName = ''perspective'',
       viewPosition = \<lparr>vx = vx center + maxDimension * (3/2), vy = vy center + maxDimension * (3/2),
                        vz = vz center + maxDimension * (3/2)\<rparr>,
       viewTarget = center, viewUp = \<lparr>vx = 0, vy = 0, vz = 1\<rparr>,
       canvasX = viewWidth, canvasY = 0\<rparr>,
      \<lparr>viewName = ''side'',
       viewPosition = \<lparr>vx = vx center - maxDimension * 2, vy = vy center, vz = vz center\<rparr>,
       viewTarget = center, viewUp = \<lparr>vx = 0, vy = 0, vz = 1\<rparr>,
       canvasX = 0, canvasY = viewHeight\<rparr>,
      \<lparr>viewName = ''front'',
       viewPosition = \<lparr>vx = vx center, vy = vy center - maxDimension * 2, vz = vz center\<rparr>,
       viewTarget = center, viewUp = \<lparr>vx = 0, vy = 0, vz = 1\<rparr>,
       canvasX = viewWidth, canvasY = viewHeight\<rparr>]"

text \<open>
  Interface \<open>MultiviewOptions\<close>, and the result of \<open>generateMultiview\<close>: the canvas that
  is encoded and the path it is written to.
\<close>

record MultiviewOptions =
  width :: nat
  height :: nat
  outputPath :: string

record ImageFile =
  filePath :: string
  image :: Canvas

definition generateMultiview :: "real STLModel list \<Rightarrow> MultiviewOptions \<Rightarrow> ImageFile" where
  "generateMultiview models options =
     (let viewWidth = 400;
          viewHeight = 300;
          totalWidth = viewWidth * 2;
          totalHeight = viewHeight * 2;
          canvas = createCanvas totalWidth totalHeight;
          allTriangles = concat (map STLModel.triangles models);
          scene = createScene allTriangles;
          bounds = calculateBounds allTriangles;
          center = \<lparr>vx = (vx (boundsMin bounds) + vx (boundsMax bounds)) / 2,
                    vy = (vy (boundsMin bounds) + vy (boundsMax bounds)) / 2,
                    vz = (vz (boundsMin bounds) + vz (boundsMax bounds)) / 2\<rparr>;
          maxDimension = max (vx (boundsMax bounds) - vx (boundsMin bounds))
                          (max (vy (boundsMax bounds) - vy (boundsMin bounds))
                               (vz (boundsMax bounds) - vz (boundsMin bounds)));
          scale = maxDimension / real (min viewWidth viewHeight) * (12/10);
          canvas1 = fold (\<lambda>view ctx.
                       renderView ctx scene
                         (createOrthographicCamera (viewPosition view) (viewTarget view) (viewUp view)
                            (real viewWidth) (real viewHeight) scale)
                         viewWidth viewHeight (canvasX view) (canvasY view))
                     (views viewWidth viewHeight center maxDimension) canvas
      in \<lparr>filePath = outputPath options, image = canvas1\<rparr>)"

section \<open>Multiview compositor, second version (unnamed source file part 004)\<close>

text \<open>
  The repository holds a second version of the compositor, with larger views, outlines,
  a background grid in world space and borders between the views.  Its functions carry
  the suffix \<open>_004\<close>; \<open>calculateBounds\<close> and \<open>getBackgroundColor\<close> are the same in both.
\<close>

text \<open>The remainder \<open>a % b\<close> of two numbers: the quotient is truncated towards zero.\<close>

definition jsRemainder :: "real \<Rightarrow> real \<Rightarrow> real" where
  "jsRemainder a b = a - b * of_int (if 0 \<le> a / b then \<lfloor>a / b\<rfloor> else \<lceil>a / b\<rceil>)"

definition getBackgroundColorWorldSpace :: "Ray \<Rightarrow> Vector3 \<Rightarrow> Vector3" where
  "getBackgroundColorWorldSpace ray baseColor =
     (let gridSize = 1; lineWidth = 5/100
      in if \<bar>vz (direction ray)\<bar> < 1/1000 then baseColor
         else
           let t = - vz (origin ray) / vz (direction ray)
           in if t < 0 then baseColor
              else
                let ix = vx (origin ray) + t * vx (direction ray);
                    iy = vy (origin ray) + t * vy (direction ray);
                    gx = \<bar>jsRemainder ix gridSize\<bar>;
                    gy = \<bar>jsRemainder iy gridSize\<bar>;
                    onGridX = (gx < lineWidth \<or> gx > gridSize - lineWidth);
                    onGridY = (gy < lineWidth \<or> gy > gridSize - lineWidth)
                in if onGridX \<or> onGridY
                   then \<lparr>vx = vx baseColor * (85/100), vy = vy baseColor * (85/100),
                         vz = vz baseColor * (85/100)\<rparr>
                   else baseColor)"

definition sampleColor_004 :: "Scene \<Rightarrow> OrthographicCamera \<Rightarrow> nat \<Rightarrow> nat \<Rightarrow> nat \<Rightarrow> nat \<Rightarrow> Vector3" where
  "sampleColor_004 scene camera px py w h =
     (let ray = getRayForPixel camera (real px) (real py) (real w) (real h)
      in case castRay ray scene of
           Some hit \<Rightarrow>
             (let outline = detectOutline ray scene (real px) (real py) (real w) (real h)
                              (\<lambda>qx qy. getRayForPixel camera qx qy (real w) (real h))
              in if isOutline outline then \<lparr>vx = 0, vy = 0, vz = 0\<rparr>
                 else calculateLighting hit scene (direction ray))
         | None \<Rightarrow> getBackgroundColorWorldSpace ray (backgroundColor scene))"

function renderColumns_004 ::
  "Scene \<Rightarrow> OrthographicCamera \<Rightarrow> nat \<Rightarrow> nat \<Rightarrow> nat \<Rightarrow> nat \<Rightarrow> 8 word list \<Rightarrow> 8 word list" where
  "renderColumns_004 scene camera w h py px d =
     (if px < w
      then renderColumns_004 scene camera w h py (px + step)
             (fillBlock d (sampleColor_004 scene camera px py w h) px py w h)
      else d)"
  by pat_completeness auto
termination
  by (relation "measure (\<lambda>(scene, camera, w, h, py, px, d). w - px)") (auto simp: step_def)

function renderRows_004 ::
  "Scene \<Rightarrow> OrthographicCamera \<Rightarrow> nat \<Rightarrow> nat \<Rightarrow> nat \<Rightarrow> 8 word list \<Rightarrow> 8 word list" where
  "renderRows_004 scene camera w h py d =
     (if py < h
      then renderRows_004 scene camera w h (py + step) (renderColumns_004 scene camera w h py 0 d)
      else d)"
  by pat_completeness auto
termination
  by (relation "measure (\<lambda>(scene, camera, w, h, py, d). h - py)") (auto simp: step_def)

definition renderView_004 ::
  "Canvas \<Rightarrow> Scene \<Rightarrow> OrthographicCamera \<Rightarrow> nat \<Rightarrow> nat \<Rightarrow> nat \<Rightarrow> nat \<Rightarrow> Canvas" where
  "renderView_004 ctx scene camera w h offsetX offsetY =
     (let imageData = createImageData w h;
          d = renderRows_004 scene camera w h 0 (bytes imageData)
      in putImageData ctx (imageData\<lparr>bytes := d\<rparr>) offsetX offsetY)"

definition drawViewBorders :: "Canvas \<Rightarrow> nat \<Rightarrow> nat \<Rightarrow> Canvas" where
  "drawViewBorders ctx viewWidth viewHeight =
     (let borderThickness = 8;
          centerX = int viewWidth;
          ctx1 = fillRect ctx (centerX - borderThickness div 2) 0 borderThickness (int viewHeight * 2);
          centerY = int viewHeight;
          ctx2 = fillRect ctx1 0 (centerY - borderThickness div 2) (int viewWidth * 2) borderThickness;
          totalWidth = int viewWidth * 2;
          totalHeight = int viewHeight * 2;
          ctx3 = fillRect ctx2 0 0 totalWidth borderThickness;
          ctx4 = fillRect ctx3 0 (totalHeight - borderThickness) totalWidth borderThickness;
          ctx5 = fillRect ctx4 0 0 borderThickness totalHeight
      in fillRect ctx5 (totalWidth - borderThickness) 0 borderThickness totalHeight)"

definition views_004 :: "nat \<Rightarrow> nat \<Rightarrow> Vector3 \<Rightarrow> real \<Rightarrow> View list" where
  "views_004 viewWidth viewHeight center maxDimension =
     [\<lparr>viewName = ''top'',
       viewPosition = \<lparr>vx = vx center, vy = vy center, vz = vz center + maxDimension * 2\<rparr>,
       viewTarget = center, viewUp = \<lparr>vx = 0, vy = 1, vz = 0\<rparr>,
       canvasX = 0, canvasY = 0\<rparr>,
      \<lparr>viewName = ''perspective'',
       viewPosition = \<lparr>vx = vx center + maxDimension * (3/2), vy = vy center + maxDimension * (3/2),
                        vz = vz center + maxDimension * 2\<rparr>,
       viewTarget = center, viewUp = \<lparr>vx = 0, vy = 1, vz = 0\<rparr>,
       canvasX = viewWidth, canvasY = 0\<rparr>,
      \<lparr>viewName = ''side'',
       viewPosition = \<lparr>vx = vx center - maxDimension * 2, vy = vy center, vz = vz center\<rparr>,
       viewTarget = center, viewUp = \<lparr>vx = 0, vy = 0, vz = 1\<rparr>,
       canvasX = 0, canvasY = viewHeight\<rparr>,
      \<lparr>viewName = ''front'',
       viewPosition = \<lparr>vx = vx center, vy = vy center - maxDimension * 2, vz = vz center\<rparr>,
       viewTarget = center, viewUp = \<lparr>vx = 0, vy = 0, vz = 1\<rparr>,
       canvasX = viewWidth, canvasY = viewHeight\<rparr>]"

definition generateMultiview_004 :: "real STLModel list \<Rightarrow> MultiviewOptions \<Rightarrow> ImageFile" where
  "generateMultiview_004 models options =
     (let viewWidth = 1600;
          viewHeight = 1200;
          totalWidth = viewWidth * 2;
          totalHeight = viewHeight * 2;
          canvas = createCanvas totalWidth totalHeight;
          allTriangles = concat (map STLModel.triangles models);
          scene = createScene allTriangles;
          bounds = calculateBounds allTriangles;
          center = \<lparr>vx = (vx (boundsMin bounds) + vx (boundsMax bounds)) / 2,
                    vy = (vy (boundsMin bounds) + vy (boundsMax bounds)) / 2,
                    vz = (vz (boundsMin bounds) + vz (boundsMax bounds)) / 2\<rparr>;
          maxDimension = max (vx (boundsMax bounds) - vx (boundsMin bounds))
                          (max (vy (boundsMax bounds) - vy (boundsMin bounds))
                               (vz (boundsMax bounds) - vz (boundsMin bounds)));
          scale = maxDimension / real (min viewWidth viewHeight) * 2;
          canvas1 = fold (\<lambda>view ctx.
                       renderView_004 ctx scene
                         (createOrthographicCamera (viewPosition view) (viewTarget view) (viewUp view)
                            (real viewWidth) (real viewHeight) scale)
                         viewWidth viewHeight (canvasX view) (canvasY view))
                     (views_004 viewWidth viewHeight center maxDimension) canvas;
          canvas2 = drawViewBorders canvas1 viewWidth viewHeight
      in \<lparr>filePath = outputPath options, image = canvas2\<rparr>)"

text \<open>
  What the specification says of the image: \<open>2 * tileWidth\<close> by \<open>2 * tileHeight\<close> pixels
  for the tile size that the options carry.
\<close>

definition specifiedSize :: "MultiviewOptions \<Rightarrow> nat \<times> nat" where
  "specifiedSize options = (2 * width options, 2 * height options)"

definition imageSize :: "ImageFile \<Rightarrow> nat \<times> nat" where
  "imageSize file = (canvasWidth (image file), canvasHeight (image file))"

section \<open>Sample data\<close>

text \<open>
  A right triangle in the plane \<open>z = 0\<close> with its normal pointing up, the same triangle
  raised to the plane \<open>z = h\<close>, the scene that holds only the first triangle, the ray
  that points straight down from \<open>(px, py, pz)\<close>, and the hit of that ray on the first
  triangle.
\<close>

definition sampleTriangle :: "real Triangle" where
  "sampleTriangle = \<lparr>tnormal = (0, 0, 1), vertices = ((0, 0, 0), (10, 0, 0), (0, 10, 0))\<rparr>"


definition sampleScene :: Scene where
  "sampleScene = createScene [sampleTriangle]"

definition downRay :: "real \<Rightarrow> real \<Rightarrow> real \<Rightarrow> Ray" where
  "downRay px py pz = \<lparr>origin = \<lparr>vx = px, vy = py, vz = pz\<rparr>, direction = \<lparr>vx = 0, vy = 0, vz = - 1\<rparr>\<rparr>"

definition sampleHit :: "real \<Rightarrow> real \<Rightarrow> real \<Rightarrow> RayHit" where
  "sampleHit px py pz = \<lparr>point = \<lparr>vx = px, vy = py, vz = 0\<rparr>, normal = \<lparr>vx = 0, vy = 0, vz = 1\<rparr>,
                          distance = pz, material = greenMaterial\<rparr>"

text \<open>
  Three small meshes of two triangles with opposite normals, seen along \<open>(0, 0, -1)\<close>.
  In \<open>creaseMesh\<close> two proper triangles share the edge from \<open>(0, 0, 0)\<close> to \<open>(1, 0, 0)\<close>.
  In \<open>foldedMesh\<close> the first triangle is degenerate: its third vertex repeats its first,
  so it has that edge twice.  In \<open>nanMesh\<close> the shared edge runs from \<open>(NaN, 0, 0)\<close> to
  \<open>(1, 0, 0)\<close>, and the two triangles go along it in opposite directions.
\<close>

definition creaseMesh :: "number Triangle list" where
  "creaseMesh =
     [\<lparr>tnormal = (Finite 0, Finite 0, Finite 1),
       vertices = ((Finite 0, Finite 0, Finite 0), (Finite 1, Finite 0, Finite 0),
                   (Finite 0, Finite 1, Finite 0))\<rparr>,
      \<lparr>tnormal = (Finite 0, Finite 0, Finite (- 1)),
       vertices = ((Finite 1, Finite 0, Finite 0), (Finite 0, Finite 0, Finite 0),
                   (Finite 0, Finite (- 1), Finite 0))\<rparr>]"

definition foldedMesh :: "number Triangle list" where
  "foldedMesh =
     [\<lparr>tnormal = (Finite 0, Finite 0, Finite 1),
       vertices = ((Finite 0, Finite 0, Finite 0), (Finite 1, Finite 0, Finite 0),
                   (Finite 0, Finite 0, Finite 0))\<rparr>,
      \<lparr>tnormal = (Finite 0, Finite 0, Finite (- 1)),
       vertices = ((Finite 0, Finite 0, Finite 0), (Finite 1, Finite 0, Finite 0),
                   (Finite 0, Finite 1, Finite 0))\<rparr>]"

definition nanMesh :: "number Triangle list" where
  "nanMesh =
     [\<lparr>tnormal = (Finite 0, Finite 0, Finite 1),
       vertices = ((NaN, Finite 0, Finite 0), (Finite 1, Finite 0, Finite 0),
                   (Finite 0, Finite 1, Finite 0))\<rparr>,
      \<lparr>tnormal = (Finite 0, Finite 0, Finite (- 1)),
       vertices = ((Finite 1, Finite 0, Finite 0), (NaN, Finite 0, Finite 0),
                   (Finite 0, Finite (- 1), Finite 0))\<rparr>]"

definition viewDown :: Vector3 where
  "viewDown = \<lparr>vx = 0, vy = 0, vz = - 1\<rparr>"

text \<open>
  A text-format mesh of one facet, in which the third literal of the normal and the
  second literal of the second vertex are not numbers.
\<close>

definition malformedMesh :: string where
  "malformedMesh =
     ''solid m\<newline>facet normal 0 0 abc\<newline>outer loop\<newline>vertex 0 0 0\<newline>vertex 1.5 x 0\<newline>vertex 0 -2e1 0\<newline>endloop\<newline>endfacet\<newline>endsolid m''"

section \<open>Verified properties\<close>

subsection \<open>Auxiliary facts\<close>

text \<open>The sample rays against the sample triangle.\<close>

lemma sample_hit:
  "0 \<le> px \<Longrightarrow> 0 \<le> py \<Longrightarrow> px + py \<le> 10 \<Longrightarrow> 1/100000 < pz \<Longrightarrow>
   intersectRayTriangle (downRay px py pz) sampleTriangle = Some (sampleHit px py pz)"
  by (simp add: intersectRayTriangle_def bboxReject_def mollerTrumbore_def sampleTriangle_def
      downRay_def sampleHit_def cross_def dot_def subtract_def add_def multiply_def
      normalize3_def length3_def Let_def)

lemma sample_miss:
  "10 < px + py \<Longrightarrow> intersectRayTriangle (downRay px py pz) sampleTriangle = None"
  by (simp add: intersectRayTriangle_def bboxReject_def mollerTrumbore_def sampleTriangle_def
      downRay_def cross_def dot_def subtract_def Let_def)


lemma sample_cast_hit:
  "0 \<le> px \<Longrightarrow> 0 \<le> py \<Longrightarrow> px + py \<le> 10 \<Longrightarrow> 1/1000 \<le> pz \<Longrightarrow>
   castRay (downRay px py pz) sampleScene = Some (sampleHit px py pz)"
  by (simp add: castRay_def sampleScene_def createScene_def sample_hit)

lemma sample_cast_miss:
  "10 < px + py \<Longrightarrow> castRay (downRay px py pz) sampleScene = None"
  by (simp add: castRay_def sampleScene_def createScene_def sample_miss)

text \<open>The two ways the neighbour loop ends.\<close>

lemma neighborLoop_similar:
  "(\<forall>n \<in> set ns. \<not> outOfBounds n w h \<longrightarrow>
      (\<exists>nh. castRay (rayFor (fst n) (snd n)) scene = Some nh
            \<and> \<bar>distance hit - distance nh\<bar> < 1/10 \<and> dot (normal hit) (normal nh) > 8/10))
   \<Longrightarrow> \<not> isOutline (neighborLoop scene hit w h rayFor ns)"
  by (induction ns) auto

lemma neighborLoop_miss:
  "(\<exists>n \<in> set ns. \<not> outOfBounds n w h \<and> castRay (rayFor (fst n) (snd n)) scene = None)
   \<Longrightarrow> isOutline (neighborLoop scene hit w h rayFor ns)"
  by (induction ns) (auto split: option.splits)













text \<open>The steps of the loop of \<open>parseASCIISTL\<close>, and the sample mesh.\<close>

declare parseFacets.simps [simp del]
declare skipHeader.simps [simp del]

lemma readVertex_defined:
  "i < length lines \<Longrightarrow>
   readVertex lines i = Inr (parseTriple (drop 1 (splitWhitespace (lines ! i))))"
  by (simp add: readVertex_def element_def)

lemma parseFacets_facet:
  assumes "i + 4 < length lines" and "startsWith (lines ! i) ''facet normal''"
  shows "parseFacets lines i ts =
     parseFacets lines (i + 7)
       (ts @ [\<lparr>tnormal = parseTriple (drop 2 (splitWhitespace (lines ! i))),
               vertices = (parseTriple (drop 1 (splitWhitespace (lines ! (i + 2)))),
                           parseTriple (drop 1 (splitWhitespace (lines ! (i + 3)))),
                           parseTriple (drop 1 (splitWhitespace (lines ! (i + 4)))))\<rparr>])"
  using assms by (subst parseFacets.simps) (simp add: readVertex_defined)

lemma parseFacets_other:
  assumes "i < length lines" and "\<not> startsWith (lines ! i) ''facet normal''"
  shows "parseFacets lines i ts = parseFacets lines (i + 1) ts"
  using assms by (subst parseFacets.simps) simp

lemma parseFacets_end: "length lines \<le> i \<Longrightarrow> parseFacets lines i ts = Inr ts"
  by (subst parseFacets.simps) simp

lemma parseFacets_complete:
  assumes "\<forall>j < length lines. startsWith (lines ! j) ''facet normal'' \<longrightarrow> j + 4 < length lines"
  shows "\<exists>ts'. parseFacets lines i ts = Inr ts'"
  using assms
proof (induction lines i ts rule: parseFacets.induct)
  case (1 lines i ts)
  show ?case
  proof (cases "i < length lines")
    case False
    then show ?thesis by (simp add: parseFacets_end)
  next
    case inside: True
    show ?thesis
    proof (cases "startsWith (lines ! i) ''facet normal''")
      case False
      with inside "1.IH"(2) "1.prems" show ?thesis by (simp add: parseFacets_other)
    next
      case True
      with inside "1.prems" have c: "i + 4 < length lines" by simp
      have r: "readVertex lines (i + 2) = Inr (parseTriple (drop 1 (splitWhitespace (lines ! (i + 2)))))"
        "readVertex lines (i + 3) = Inr (parseTriple (drop 1 (splitWhitespace (lines ! (i + 3)))))"
        "readVertex lines (i + 4) = Inr (parseTriple (drop 1 (splitWhitespace (lines ! (i + 4)))))"
        using c by (simp_all add: readVertex_defined)
      from "1.IH"(1) [OF inside True r(1) r(2) r(3) "1.prems"]
      show ?thesis by (simp add: parseFacets_facet [OF c True])
    qed
  qed
qed

lemma malformedMesh_lines:
  "linesOf malformedMesh = [''solid m'', ''facet normal 0 0 abc'', ''outer loop'', ''vertex 0 0 0'',
     ''vertex 1.5 x 0'', ''vertex 0 -2e1 0'', ''endloop'', ''endfacet'', ''endsolid m'']"
  by code_simp

lemma malformedMesh_complete:
  "\<forall>j < length (linesOf malformedMesh).
      startsWith (linesOf malformedMesh ! j) ''facet normal'' \<longrightarrow> j + 4 < length (linesOf malformedMesh)"
  unfolding malformedMesh_lines
  by (simp add: startsWith_def All_less_Suc eval_nat_numeral)


text \<open>No canvas operation changes the size of the canvas.\<close>

lemma putImageData_size [simp]:
  "canvasWidth (putImageData c img ox oy) = canvasWidth c"
  "canvasHeight (putImageData c img ox oy) = canvasHeight c"
  by (simp_all add: putImageData_def)

lemma fillRect_size [simp]:
  "canvasWidth (fillRect c rx ry rw rh) = canvasWidth c"
  "canvasHeight (fillRect c rx ry rw rh) = canvasHeight c"
  by (simp_all add: fillRect_def)

lemma renderView_size:
  "canvasWidth (renderView c scene camera w h ox oy) = canvasWidth c"
  "canvasHeight (renderView c scene camera w h ox oy) = canvasHeight c"
  by (simp_all add: renderView_def Let_def)

lemma renderView_004_size:
  "canvasWidth (renderView_004 c scene camera w h ox oy) = canvasWidth c"
  "canvasHeight (renderView_004 c scene camera w h ox oy) = canvasHeight c"
  by (simp_all add: renderView_004_def Let_def)

lemma drawViewBorders_size:
  "canvasWidth (drawViewBorders c w h) = canvasWidth c"
  "canvasHeight (drawViewBorders c w h) = canvasHeight c"
  by (simp_all add: drawViewBorders_def Let_def)

lemma fold_size:
  assumes "\<And>v c. canvasWidth (f v c) = canvasWidth c" "\<And>v c. canvasHeight (f v c) = canvasHeight c"
  shows "canvasWidth (fold f vs c) = canvasWidth c \<and> canvasHeight (fold f vs c) = canvasHeight c"
  by (induction vs arbitrary: c) (simp_all add: assms)

lemma generateMultiview_size: "imageSize (generateMultiview models options) = (800, 600)"
  unfolding generateMultiview_def imageSize_def Let_def
  by (simp add: fold_size renderView_size createCanvas_def)

lemma generateMultiview_004_size: "imageSize (generateMultiview_004 models options) = (3200, 2400)"
  unfolding generateMultiview_004_def imageSize_def Let_def
  by (simp add: fold_size renderView_004_size drawViewBorders_size createCanvas_def)

subsection \<open>Lighting\<close>

text \<open>
  C9.  The lighting calculation never reads the ambient coefficient of the material: two
  hits that differ only in \<open>material.ambient\<close> are shaded alike, the ambient term being
  the material colour times the ambient light of the scene; and every hit that the
  intersection routine produces carries the coefficient \<open>0.3\<close>.
\<close>

theorem calculateLighting_ignores_ambient:
  "calculateLighting (hit\<lparr>material := (material hit)\<lparr>ambient := a\<rparr>\<rparr>) scene rayDirection
     = calculateLighting hit scene rayDirection
   \<and> ambientTerm (hit\<lparr>material := (material hit)\<lparr>ambient := a\<rparr>\<rparr>) scene
     = multiplyVectors (color (material hit)) (ambientLight scene)
   \<and> (\<forall>h. intersectRayTriangle ray triangle = Some h \<longrightarrow> ambient (material h) = 3/10)"
  by (auto simp: calculateLighting_def foggedColor_def combinedLight_def fogFactor_def
        ambientTerm_def diffuseTerm_def
        intersectRayTriangle_def mollerTrumbore_def greenMaterial_def Let_def
      split: prod.splits if_splits)

theorem calculateLighting_ignores_ambient_witness:
  "intersectRayTriangle (downRay 2 2 5) sampleTriangle = Some (sampleHit 2 2 5)
   \<and> ambient (material (sampleHit 2 2 5)) = 3/10
   \<and> calculateLighting ((sampleHit 2 2 5)\<lparr>material := (material (sampleHit 2 2 5))\<lparr>ambient := 1\<rparr>\<rparr>)
        sampleScene (direction (downRay 2 2 5))
     = calculateLighting (sampleHit 2 2 5) sampleScene (direction (downRay 2 2 5))"
  using calculateLighting_ignores_ambient [where hit="sampleHit 2 2 5" and a=1 and scene=sampleScene
      and rayDirection="direction (downRay 2 2 5)" and ray="downRay 2 2 5" and triangle=sampleTriangle]
  by (simp add: sample_hit)

subsection \<open>Outline detection\<close>

text \<open>
  C4.  When the ray of the centre pixel hits the scene: if every in-bounds 4-connected
  neighbour ray also hits, with an absolute depth difference below \<open>0.1\<close> and a normal dot
  product above \<open>0.8\<close>, then \<open>detectOutline\<close> returns \<open>isOutline = false\<close>; and if the
  ray of at least one in-bounds neighbour misses the scene, it returns
  \<open>isOutline = true\<close>.
\<close>

theorem detectOutline_neighbors:
  assumes "castRay ray scene = Some hit"
  shows "((\<forall>n \<in> set (neighbors pixelX pixelY). \<not> outOfBounds n imageWidth imageHeight \<longrightarrow>
            (\<exists>nh. castRay (rayFor (fst n) (snd n)) scene = Some nh
                  \<and> \<bar>distance hit - distance nh\<bar> < 1/10
                  \<and> dot (normal hit) (normal nh) > 8/10))
          \<longrightarrow> \<not> isOutline (detectOutline ray scene pixelX pixelY imageWidth imageHeight rayFor))
       \<and> ((\<exists>n \<in> set (neighbors pixelX pixelY). \<not> outOfBounds n imageWidth imageHeight
               \<and> castRay (rayFor (fst n) (snd n)) scene = None)
          \<longrightarrow> isOutline (detectOutline ray scene pixelX pixelY imageWidth imageHeight rayFor))"
  using assms neighborLoop_similar [of "neighbors pixelX pixelY" imageWidth imageHeight rayFor scene hit]
    neighborLoop_miss [of "neighbors pixelX pixelY" imageWidth imageHeight rayFor scene hit]
  by (simp add: detectOutline_def)

theorem detectOutline_neighbors_witness:
  "castRay (downRay 2 2 5) sampleScene = Some (sampleHit 2 2 5)
   \<and> \<not> isOutline (detectOutline (downRay 2 2 5) sampleScene 2 2 100 100 (\<lambda>px py. downRay px py 5))
   \<and> castRay (downRay 9 (1/2) 5) sampleScene = Some (sampleHit 9 (1/2) 5)
   \<and> \<not> outOfBounds (10, 1/2) 100 100
   \<and> castRay (downRay 10 (1/2) 5) sampleScene = None
   \<and> isOutline (detectOutline (downRay 9 (1/2) 5) sampleScene 9 (1/2) 100 100 (\<lambda>px py. downRay px py 5))"
proof -
  have a: "castRay (downRay 2 2 5) sampleScene = Some (sampleHit 2 2 5)"
    by (simp add: sample_cast_hit)
  have b: "castRay (downRay 9 (1/2) 5) sampleScene = Some (sampleHit 9 (1/2) 5)"
    by (simp add: sample_cast_hit)
  have m: "castRay (downRay 10 (1/2) 5) sampleScene = None"
    by (simp add: sample_cast_miss)
  show ?thesis
    using a b m
      detectOutline_neighbors [OF a, of 2 2 100 100 "\<lambda>px py. downRay px py 5"]
      detectOutline_neighbors [OF b, of 9 "1/2" 100 100 "\<lambda>px py. downRay px py 5"]
    by (simp add: neighbors_def outOfBounds_def sample_cast_hit sample_cast_miss sampleHit_def dot_def)
qed

subsection \<open>Nearest hit\<close>



subsection \<open>Silhouette detection\<close>

text \<open>
  C5.  \<open>detectSilhouette\<close> is to flag a triangle exactly when it has an edge, the
  unordered pair of its endpoint coordinate triples, that is shared by exactly two
  triangles whose facing tests disagree.  It does so on \<open>creaseMesh\<close>, and fails to on the
  other two meshes.  In \<open>foldedMesh\<close> the edge from \<open>(0, 0, 0)\<close> to \<open>(1, 0, 0)\<close> is shared
  by exactly the triangles 0 and 1, whose facing tests disagree; but triangle 0 has the
  edge twice, the index list of its key is \<open>[0, 0, 1]\<close>, and no triangle is flagged.  In
  \<open>nanMesh\<close> the edge from \<open>(NaN, 0, 0)\<close> to \<open>(1, 0, 0)\<close> is shared by exactly the
  triangles 0 and 1, whose facing tests disagree; but every comparison with NaN is
  false, the key of the edge depends on the order of its endpoints, the two triangles
  enter it under different keys, and no triangle is flagged.
\<close>

theorem detectSilhouette_misses_shared_edge:
  "detectSilhouette creaseMesh viewDown = [True, True]
   \<and> sharers foldedMesh {(Finite 0, Finite 0, Finite 0), (Finite 1, Finite 0, Finite 0)} = [0, 1]
   \<and> facing (foldedMesh ! 0) viewDown \<noteq> facing (foldedMesh ! 1) viewDown
   \<and> map_of (buildEdges foldedMesh 0 [])
        (createEdgeKey (Finite 0, Finite 0, Finite 0) (Finite 1, Finite 0, Finite 0)) = Some [0, 0, 1]
   \<and> detectSilhouette foldedMesh viewDown = [False, False]
   \<and> sharers nanMesh {(NaN, Finite 0, Finite 0), (Finite 1, Finite 0, Finite 0)} = [0, 1]
   \<and> facing (nanMesh ! 0) viewDown \<noteq> facing (nanMesh ! 1) viewDown
   \<and> createEdgeKey (NaN, Finite 0, Finite 0) (Finite 1, Finite 0, Finite 0)
        \<noteq> createEdgeKey (Finite 1, Finite 0, Finite 0) (NaN, Finite 0, Finite 0)
   \<and> detectSilhouette nanMesh viewDown = [False, False]"
proof -
  have crease: "detectSilhouette creaseMesh viewDown = [True, True]"
    by (simp add: detectSilhouette_def creaseMesh_def viewDown_def addTriangleEdges_def addEdge_def
        numEq_def facing_def)
  have folded: "detectSilhouette foldedMesh viewDown = [False, False]"
    by (simp add: detectSilhouette_def foldedMesh_def viewDown_def addTriangleEdges_def addEdge_def
        numEq_def facing_def)
  have nan: "detectSilhouette nanMesh viewDown = [False, False]"
    by (simp add: detectSilhouette_def nanMesh_def viewDown_def addTriangleEdges_def addEdge_def
        numEq_def facing_def)
  have fs: "sharers foldedMesh {(Finite 0, Finite 0, Finite 0), (Finite 1, Finite 0, Finite 0)} = [0, 1]"
    by (simp add: sharers_def foldedMesh_def edgesOf_def upt_rec doubleton_eq_iff)
  have ns: "sharers nanMesh {(NaN, Finite 0, Finite 0), (Finite 1, Finite 0, Finite 0)} = [0, 1]"
    by (simp add: sharers_def nanMesh_def edgesOf_def upt_rec doubleton_eq_iff)
  have ff: "facing (foldedMesh ! 0) viewDown \<noteq> facing (foldedMesh ! 1) viewDown"
    by (simp add: foldedMesh_def viewDown_def facing_def)
  have nf: "facing (nanMesh ! 0) viewDown \<noteq> facing (nanMesh ! 1) viewDown"
    by (simp add: nanMesh_def viewDown_def facing_def)
  have fl: "map_of (buildEdges foldedMesh 0 [])
        (createEdgeKey (Finite 0, Finite 0, Finite 0) (Finite 1, Finite 0, Finite 0)) = Some [0, 0, 1]"
    by (simp add: foldedMesh_def addTriangleEdges_def addEdge_def numEq_def)
  have nk: "createEdgeKey (NaN, Finite 0, Finite 0) (Finite 1, Finite 0, Finite 0)
        \<noteq> createEdgeKey (Finite 1, Finite 0, Finite 0) (NaN, Finite 0, Finite 0)"
    by (simp add: numEq_def)
  from crease fs ff fl folded ns nf nk nan show ?thesis by blast
qed

subsection \<open>Mesh decoder\<close>

text \<open>
  C3, as the code has it.  A malformed floating-point literal in a facet-normal line or
  a vertex line does not make the decoder fail.  Whenever every facet-normal line of the
  stream is followed by at least four more lines, \<open>parseASCIISTL\<close> returns a triangle
  list, whatever the literals are; each facet contributes one triangle, whose numbers
  are what \<open>parseFloat\<close> makes of the pieces of the four lines, NaN for a piece with no
  numeric prefix.  (The decoder fails only when the stream ends inside a facet, with a
  TypeError that names no line.)
\<close>

theorem parseASCIISTL_accepts_any_literal:
  "((\<forall>j < length (linesOf content).
        startsWith (linesOf content ! j) ''facet normal'' \<longrightarrow> j + 4 < length (linesOf content))
     \<longrightarrow> (\<exists>ts. parseASCIISTL content = Inr \<lparr>STLModel.triangles = ts, name = None\<rparr>))
   \<and> (i + 4 < length lines \<and> startsWith (lines ! i) ''facet normal'' \<longrightarrow>
        parseFacets lines i acc =
          parseFacets lines (i + 7)
            (acc @ [\<lparr>tnormal = parseTriple (drop 2 (splitWhitespace (lines ! i))),
                     vertices = (parseTriple (drop 1 (splitWhitespace (lines ! (i + 2)))),
                                 parseTriple (drop 1 (splitWhitespace (lines ! (i + 3)))),
                                 parseTriple (drop 1 (splitWhitespace (lines ! (i + 4)))))\<rparr>]))
   \<and> parseTriple parts
        = (parseFloat (element parts 0), parseFloat (element parts 1), parseFloat (element parts 2))"
proof -
  have a: "\<exists>ts. parseASCIISTL content = Inr \<lparr>STLModel.triangles = ts, name = None\<rparr>"
    if "\<forall>j < length (linesOf content).
        startsWith (linesOf content ! j) ''facet normal'' \<longrightarrow> j + 4 < length (linesOf content)"
  proof -
    from parseFacets_complete [OF that]
    obtain ts where "parseFacets (linesOf content) (skipHeader (linesOf content) 0) [] = Inr ts"
      by blast
    then show ?thesis by (simp add: parseASCIISTL_def Let_def)
  qed
  show ?thesis using a by (simp add: parseFacets_facet parseTriple_def)
qed

theorem parseASCIISTL_accepts_any_literal_witness:
  "linesOf malformedMesh = [''solid m'', ''facet normal 0 0 abc'', ''outer loop'', ''vertex 0 0 0'',
     ''vertex 1.5 x 0'', ''vertex 0 -2e1 0'', ''endloop'', ''endfacet'', ''endsolid m'']
   \<and> 1 + 4 < length (linesOf malformedMesh)
   \<and> startsWith (linesOf malformedMesh ! 1) ''facet normal''
   \<and> (\<exists>ts. parseASCIISTL malformedMesh = Inr \<lparr>STLModel.triangles = ts, name = None\<rparr>)
   \<and> parseFacets (linesOf malformedMesh) 1 [] = parseFacets (linesOf malformedMesh) (1 + 7)
        [\<lparr>tnormal = parseTriple (drop 2 (splitWhitespace (linesOf malformedMesh ! 1))),
          vertices = (parseTriple (drop 1 (splitWhitespace (linesOf malformedMesh ! (1 + 2)))),
                      parseTriple (drop 1 (splitWhitespace (linesOf malformedMesh ! (1 + 3)))),
                      parseTriple (drop 1 (splitWhitespace (linesOf malformedMesh ! (1 + 4)))))\<rparr>]"
proof -
  have f: "1 + 4 < length (linesOf malformedMesh)"
    "startsWith (linesOf malformedMesh ! 1) ''facet normal''"
    unfolding malformedMesh_lines by (simp_all add: startsWith_def)
  from parseASCIISTL_accepts_any_literal [of malformedMesh 1 "linesOf malformedMesh" "[]"]
    malformedMesh_complete f
  have "(\<exists>ts. parseASCIISTL malformedMesh = Inr \<lparr>STLModel.triangles = ts, name = None\<rparr>)
   \<and> parseFacets (linesOf malformedMesh) 1 [] = parseFacets (linesOf malformedMesh) (1 + 7)
        [\<lparr>tnormal = parseTriple (drop 2 (splitWhitespace (linesOf malformedMesh ! 1))),
          vertices = (parseTriple (drop 1 (splitWhitespace (linesOf malformedMesh ! (1 + 2)))),
                      parseTriple (drop 1 (splitWhitespace (linesOf malformedMesh ! (1 + 3)))),
                      parseTriple (drop 1 (splitWhitespace (linesOf malformedMesh ! (1 + 4)))))\<rparr>]"
    by simp
  with f malformedMesh_lines show ?thesis by blast
qed

text \<open>
  C3 as stated fails: the sample mesh has the literals \<open>abc\<close> in its facet-normal line
  and \<open>x\<close> in a vertex line, and the decoder returns a triangle list, with NaN in their
  places.
\<close>

theorem parseASCIISTL_malformed_counterexample:
  "parseASCIISTL malformedMesh =
    Inr \<lparr>STLModel.triangles = [\<lparr>tnormal = (Finite 0, Finite 0, NaN),
        vertices = ((Finite 0, Finite 0, Finite 0), (Finite (3/2), NaN, Finite 0),
                    (Finite 0, Finite (- 20), Finite 0))\<rparr>],
      name = None\<rparr>"
  by code_simp

subsection \<open>Multiview compositor\<close>

text \<open>
  C1, as the code has it.  The image that \<open>generateMultiview\<close> produces is a raster of
  pixels with four channels of eight bits whose dimensions do not depend on the
  options: they are twice the fixed view size of the code, \<open>(2 * 400) x (2 * 300)\<close> in
  \<open>src/views/multiview.ts\<close> and \<open>(2 * 1600) x (2 * 1200)\<close> in the second version; the
  options contribute the output path only.
\<close>

theorem generateMultiview_fixed_size:
  "imageSize (generateMultiview models options) = (2 * 400, 2 * 300)
   \<and> imageSize (generateMultiview_004 models options) = (2 * 1600, 2 * 1200)
   \<and> filePath (generateMultiview models options) = outputPath options
   \<and> filePath (generateMultiview_004 models options) = outputPath options"
  by (simp add: generateMultiview_size generateMultiview_004_size)
    (simp add: generateMultiview_def generateMultiview_004_def Let_def)

text \<open>
  C1 as stated fails: with a tile size of \<open>40 x 30\<close> in the options, the specified image
  is \<open>80 x 60\<close>, and the images of the two versions are \<open>800 x 600\<close> and \<open>3200 x 2400\<close>.
\<close>

theorem generateMultiview_size_counterexample:
  "imageSize (generateMultiview [] \<lparr>width = 40, height = 30, outputPath = ''out.png''\<rparr>) = (800, 600)
   \<and> imageSize (generateMultiview_004 [] \<lparr>width = 40, height = 30, outputPath = ''out.png''\<rparr>) = (3200, 2400)
   \<and> specifiedSize \<lparr>width = 40, height = 30, outputPath = ''out.png''\<rparr> = (80, 60)"
  by (simp add: generateMultiview_size generateMultiview_004_size specifiedSize_def)

end
